theory Spec2Isabelle
  imports Main "HOL-Library.Multiset" "HOL-Library.Char_ord" "HOL-Library.List_Lexorder"
begin

section \<open>Python values\<close>

text \<open>
  The audit logger (\<^verbatim>\<open>project-2/audit_logger.py\<close>) handles dynamically typed values:
  keyword arguments, results of wrapped operations, attributes of vendor errors. They are
  embedded as the datatype \<open>pyval\<close>. A dictionary is an association list in insertion order
  with string keys (keyword arguments and the declared type \<^verbatim>\<open>Dict[str, Any]\<close> of
  \<^verbatim>\<open>parameters\<close>); \<open>PObj cls attrs\<close> is an instance of a class that is not a builtin,
  with its data attributes. Floats are left out. A character is a code point below 256.
\<close>

datatype pyval =
    PNone
  | PBool bool
  | PInt int
  | PStr string
  | PList "pyval list"
  | PTuple "pyval list"
  | PDict "(string \<times> pyval) list"
  | PObj string "(string \<times> pyval) list"

datatype pyerr = TypeError | AttributeError | KeyError | IndexError | SqliteError

text \<open>Truth value of a Python value, as tested by \<^verbatim>\<open>if x:\<close>.\<close>

fun truthy :: "pyval \<Rightarrow> bool" where
  "truthy PNone = False"
| "truthy (PBool b) = b"
| "truthy (PInt i) = (i \<noteq> 0)"
| "truthy (PStr s) = (s \<noteq> [])"
| "truthy (PList xs) = (xs \<noteq> [])"
| "truthy (PTuple xs) = (xs \<noteq> [])"
| "truthy (PDict kvs) = (kvs \<noteq> [])"
| "truthy (PObj c as) = True"

text \<open>\<^verbatim>\<open>hasattr(x, name)\<close> and \<^verbatim>\<open>getattr(x, name)\<close> for the attribute names the logger
  probes (\<^verbatim>\<open>results\<close>, \<^verbatim>\<open>resource_name\<close>): no builtin value has them.\<close>

fun getattr :: "pyval \<Rightarrow> string \<Rightarrow> pyval option" where
  "getattr (PObj c as) name = map_of as name"
| "getattr _ name = None"

definition hasattr :: "pyval \<Rightarrow> string \<Rightarrow> bool" where
  "hasattr x name = (getattr x name \<noteq> None)"

text \<open>\<^verbatim>\<open>d.update(other)\<close>: a key already present keeps its position and takes the new
  value, a new key is appended.\<close>

fun dict_set :: "string \<Rightarrow> pyval \<Rightarrow> (string \<times> pyval) list \<Rightarrow> (string \<times> pyval) list" where
  "dict_set k v [] = [(k, v)]"
| "dict_set k v (p # ps) = (if fst p = k then (k, v) # ps else p # dict_set k v ps)"

fun dict_update :: "(string \<times> pyval) list \<Rightarrow> (string \<times> pyval) list \<Rightarrow> (string \<times> pyval) list" where
  "dict_update d [] = d"
| "dict_update d (p # ps) = dict_update (dict_set (fst p) (snd p) d) ps"

section \<open>Decimal text of integers\<close>

definition digit_char :: "nat \<Rightarrow> char" where
  "digit_char d = char_of (48 + d)"

fun str_nat :: "nat \<Rightarrow> string" where
  "str_nat n = (if n < 10 then [digit_char n] else str_nat (n div 10) @ [digit_char (n mod 10)])"

declare str_nat.simps [simp del]

definition str_int :: "int \<Rightarrow> string" where
  "str_int i = (if i < 0 then CHR ''-'' # str_nat (nat (- i)) else str_nat (nat i))"

section \<open>json.dumps\<close>

text \<open>
  \<^verbatim>\<open>json.dumps\<close> with its defaults: separators \<^verbatim>\<open>", "\<close> and \<^verbatim>\<open>": "\<close>,
  \<^verbatim>\<open>ensure_ascii=True\<close>, tuples written as arrays, and \<^verbatim>\<open>TypeError\<close> for a value
  of any other class.
\<close>

definition hex_char :: "nat \<Rightarrow> char" where
  "hex_char d = (if d < 10 then char_of (48 + d) else char_of (87 + d))"

definition esc_char :: "char \<Rightarrow> string" where
  "esc_char c =
     (if c = CHR ''\"'' then [CHR 0x5C, CHR ''\"'']
      else if c = CHR 0x5C then [CHR 0x5C, CHR 0x5C]
      else if c = CHR 0x0A then [CHR 0x5C, CHR ''n'']
      else if c = CHR 0x0D then [CHR 0x5C, CHR ''r'']
      else if c = CHR 0x09 then [CHR 0x5C, CHR ''t'']
      else if c = CHR 0x08 then [CHR 0x5C, CHR ''b'']
      else if c = CHR 0x0C then [CHR 0x5C, CHR ''f'']
      else if 32 \<le> (of_char c :: nat) \<and> (of_char c :: nat) \<le> 126 then [c]
      else [CHR 0x5C, CHR ''u'', CHR ''0'', CHR ''0'',
            hex_char ((of_char c :: nat) div 16), hex_char ((of_char c :: nat) mod 16)])"

definition encode_str :: "string \<Rightarrow> string" where
  "encode_str s = CHR ''\"'' # concat (map esc_char s) @ [CHR ''\"'']"

fun join_sep :: "string \<Rightarrow> string list \<Rightarrow> string" where
  "join_sep sep [] = []"
| "join_sep sep [x] = x"
| "join_sep sep (x # y # ys) = x @ sep @ join_sep sep (y # ys)"

fun serializable :: "pyval \<Rightarrow> bool" where
  "serializable PNone = True"
| "serializable (PBool b) = True"
| "serializable (PInt i) = True"
| "serializable (PStr s) = True"
| "serializable (PList xs) = list_all serializable xs"
| "serializable (PTuple xs) = list_all serializable xs"
| "serializable (PDict kvs) = list_all (\<lambda>kv. serializable (snd kv)) kvs"
| "serializable (PObj c as) = False"

fun encode :: "pyval \<Rightarrow> string" where
  "encode PNone = ''null''"
| "encode (PBool b) = (if b then ''true'' else ''false'')"
| "encode (PInt i) = str_int i"
| "encode (PStr s) = encode_str s"
| "encode (PList xs) = ''['' @ join_sep '', '' (map encode xs) @ '']''"
| "encode (PTuple xs) = ''['' @ join_sep '', '' (map encode xs) @ '']''"
| "encode (PDict kvs) =
     ''{'' @ join_sep '', '' (map (\<lambda>kv. encode_str (fst kv) @ '': '' @ encode (snd kv)) kvs) @ ''}''"
| "encode (PObj c as) = []"

definition json_dumps :: "pyval \<Rightarrow> pyerr + string" where
  "json_dumps v = (if serializable v then Inr (encode v) else Inl TypeError)"

section \<open>Session state and identity\<close>

text \<open>
  \<^verbatim>\<open>st.session_state\<close> as far as the logger reads and writes it: a key is absent
  (\<open>None\<close>) or bound to a value. The application binds \<^verbatim>\<open>user_id\<close> and
  \<^verbatim>\<open>customer_id\<close> (the latter also to Python's \<^verbatim>\<open>None\<close>); the two generated
  identifiers are only written here. \<open>env_user_id\<close> is the environment variable
  \<^verbatim>\<open>GOOGLE_ADS_USER_ID\<close>.
\<close>

record session_state =
  ss_user_id :: "pyval option"
  ss_generated_user_id :: "string option"
  ss_customer_id :: "pyval option"
  ss_session_id :: "string option"

definition get_user_id :: "int \<Rightarrow> string option \<Rightarrow> session_state \<Rightarrow> pyval \<times> session_state" where
  "get_user_id now getenv ss =
     (case ss_user_id ss of
        Some u \<Rightarrow> (u, ss)
      | None \<Rightarrow>
          (case getenv of
             Some (c # cs) \<Rightarrow> (PStr (c # cs), ss)
           | _ \<Rightarrow>
               (case ss_generated_user_id ss of
                  Some g \<Rightarrow> (PStr g, ss)
                | None \<Rightarrow>
                    (PStr (''user_'' @ str_int now),
                     ss\<lparr>ss_generated_user_id := Some (''user_'' @ str_int now)\<rparr>))))"

definition get_customer_id :: "session_state \<Rightarrow> pyval" where
  "get_customer_id ss = (case ss_customer_id ss of Some c \<Rightarrow> c | None \<Rightarrow> PStr ''unknown'')"

definition get_session_id :: "int \<Rightarrow> session_state \<Rightarrow> string \<times> session_state" where
  "get_session_id now ss =
     (case ss_session_id ss of
        Some s \<Rightarrow> (s, ss)
      | None \<Rightarrow> (''session_'' @ str_int now, ss\<lparr>ss_session_id := Some (''session_'' @ str_int now)\<rparr>))"

section \<open>The audit_logs table\<close>

text \<open>
  One row of \<^verbatim>\<open>audit_logs\<close>; a nullable column is an option. The table is the list
  of its rows in insertion order together with the AUTOINCREMENT counter.
\<close>

record audit_row =
  row_id :: nat
  timestamp :: string
  user_id :: string
  customer_id :: string
  operation_type :: string
  resource_type :: string
  resource_id :: "string option"
  function_name :: string
  parameters :: "string option"
  result_status :: "string option"
  result_data :: "string option"
  error_message :: "string option"
  error_type :: "string option"
  error_code :: "string option"
  stack_trace :: "string option"
  execution_time_ms :: "int option"
  session_id :: string

record world =
  sess :: session_state
  env_user_id :: "string option"
  db_rows :: "audit_row list"
  db_seq :: nat

text \<open>What the clock gives during one call of \<^verbatim>\<open>log_operation\<close>: \<^verbatim>\<open>int(time.time())\<close>
  in \<^verbatim>\<open>get_user_id\<close> and in \<^verbatim>\<open>get_session_id\<close>, and the store's
  \<^verbatim>\<open>CURRENT_TIMESTAMP\<close>.\<close>

record log_env =
  now_user :: int
  now_session :: int
  current_timestamp :: string

text \<open>Binding a Python value to a column of TEXT affinity: \<^verbatim>\<open>None\<close> is NULL, a string is
  stored as it is, an integer (64 bits) or a boolean as its decimal text; a value of any other
  class makes \<^verbatim>\<open>execute\<close> raise.\<close>

fun bind_text :: "pyval \<Rightarrow> pyerr + string option" where
  "bind_text PNone = Inr None"
| "bind_text (PStr s) = Inr (Some s)"
| "bind_text (PInt i) =
     (if - (2 ^ 63) \<le> i \<and> i < 2 ^ 63 then Inr (Some (str_int i)) else Inl SqliteError)"
| "bind_text (PBool b) = Inr (Some (if b then ''1'' else ''0''))"
| "bind_text _ = Inl SqliteError"

text \<open>\<^verbatim>\<open>json.dumps(x) if x else None\<close>\<close>

definition dumps_if_truthy :: "pyval \<Rightarrow> pyerr + string option" where
  "dumps_if_truthy x =
     (if truthy x then (case json_dumps x of Inl e \<Rightarrow> Inl e | Inr t \<Rightarrow> Inr (Some t)) else Inr None)"

text \<open>The INSERT statement: the bound values become a row with the next surrogate id, unless
  a value cannot be bound or a NOT NULL column (\<^verbatim>\<open>user_id\<close>, \<^verbatim>\<open>customer_id\<close>) would be
  NULL.\<close>

definition execute_insert ::
  "string \<Rightarrow> pyval \<Rightarrow> pyval \<Rightarrow> string \<Rightarrow> string \<Rightarrow> pyval \<Rightarrow> string \<Rightarrow> string option \<Rightarrow>
   string \<Rightarrow> string option \<Rightarrow> string option \<Rightarrow> string option \<Rightarrow> pyval \<Rightarrow> string option \<Rightarrow>
   int option \<Rightarrow> string \<Rightarrow> world \<Rightarrow> pyerr + world" where
  "execute_insert ts uid cid op_type res_type res_id fn params status rdata emsg etype ecode
     strace ms sid w =
     (case (bind_text uid, bind_text cid, bind_text res_id, bind_text ecode) of
        (Inr (Some u), Inr (Some c), Inr rid, Inr ec) \<Rightarrow>
          Inr (w\<lparr>db_seq := Suc (db_seq w),
                 db_rows := db_rows w @
                   [\<lparr>row_id = Suc (db_seq w), timestamp = ts, user_id = u, customer_id = c,
                     operation_type = op_type, resource_type = res_type, resource_id = rid,
                     function_name = fn, parameters = params, result_status = Some status,
                     result_data = rdata, error_message = emsg, error_type = etype,
                     error_code = ec, stack_trace = strace, execution_time_ms = ms,
                     session_id = sid\<rparr>]\<rparr>)
      | _ \<Rightarrow> Inl SqliteError)"

text \<open>
  \<^verbatim>\<open>AuditLogger.log_operation\<close>. The values of the INSERT are evaluated in the order of
  the source (user, customer, the two \<^verbatim>\<open>json.dumps\<close>, session); whatever is raised there
  or by \<^verbatim>\<open>execute\<close> is caught by \<^verbatim>\<open>except Exception\<close> and printed, so the call returns
  without a new row. Opening the connection is taken to succeed.
\<close>

definition log_operation ::
  "log_env \<Rightarrow> string \<Rightarrow> string \<Rightarrow> string \<Rightarrow> pyval \<Rightarrow> pyval \<Rightarrow> string \<Rightarrow> pyval \<Rightarrow>
   string option \<Rightarrow> string option \<Rightarrow> pyval \<Rightarrow> string option \<Rightarrow> int option \<Rightarrow> world \<Rightarrow> world" where
  "log_operation env op_type res_type fn params res_id status rdata emsg etype ecode strace ms w =
     (case get_user_id (now_user env) (env_user_id w) (sess w) of
        (uid, s1) \<Rightarrow>
          (case dumps_if_truthy params of
             Inl e \<Rightarrow> w\<lparr>sess := s1\<rparr>
           | Inr p \<Rightarrow>
               (case dumps_if_truthy rdata of
                  Inl e \<Rightarrow> w\<lparr>sess := s1\<rparr>
                | Inr rd \<Rightarrow>
                    (case get_session_id (now_session env) s1 of
                       (sid, s2) \<Rightarrow>
                         (case execute_insert (current_timestamp env) uid (get_customer_id s1)
                                 op_type res_type res_id fn p status rd emsg etype ecode strace ms
                                 sid (w\<lparr>sess := s2\<rparr>) of
                            Inl e \<Rightarrow> w\<lparr>sess := s2\<rparr>
                          | Inr w' \<Rightarrow> w')))))"

section \<open>json.loads\<close>

text \<open>
  The decoder of the \<^verbatim>\<open>json\<close> module on the values of the model: whitespace, the three
  literals, integers, strings with their escapes (strict mode: a raw control character is an
  error), arrays and objects; an object becomes a dictionary, a repeated key keeping its first
  position and its last value. \<open>None\<close> is \<^verbatim>\<open>JSONDecodeError\<close>; floats and escapes of
  code points beyond 255 are outside the model and give \<open>None\<close> too. The recursion is bounded
  by the length of the text, since every step consumes a character.
\<close>

definition is_ws :: "char \<Rightarrow> bool" where
  "is_ws c = (c = CHR '' '' \<or> c = CHR 0x09 \<or> c = CHR 0x0A \<or> c = CHR 0x0D)"

definition skip_ws :: "string \<Rightarrow> string" where
  "skip_ws s = dropWhile is_ws s"

definition is_digit :: "char \<Rightarrow> bool" where
  "is_digit c = (48 \<le> (of_char c :: nat) \<and> (of_char c :: nat) \<le> 57)"

definition digit_val :: "char \<Rightarrow> nat" where
  "digit_val c = of_char c - 48"

definition hex_val :: "char \<Rightarrow> nat option" where
  "hex_val c =
     (let n = (of_char c :: nat) in
      if 48 \<le> n \<and> n \<le> 57 then Some (n - 48)
      else if 97 \<le> n \<and> n \<le> 102 then Some (n - 87)
      else if 65 \<le> n \<and> n \<le> 70 then Some (n - 55)
      else None)"

definition hex4 :: "char \<Rightarrow> char \<Rightarrow> char \<Rightarrow> char \<Rightarrow> nat option" where
  "hex4 a b c d =
     (case (hex_val a, hex_val b, hex_val c, hex_val d) of
        (Some w, Some x, Some y, Some z) \<Rightarrow> Some (((w * 16 + x) * 16 + y) * 16 + z)
      | _ \<Rightarrow> None)"

definition unescape :: "char \<Rightarrow> char option" where
  "unescape e =
     (if e = CHR ''\"'' then Some (CHR ''\"'')
      else if e = CHR 0x5C then Some (CHR 0x5C)
      else if e = CHR ''/'' then Some (CHR ''/'')
      else if e = CHR ''b'' then Some (CHR 0x08)
      else if e = CHR ''f'' then Some (CHR 0x0C)
      else if e = CHR ''n'' then Some (CHR 0x0A)
      else if e = CHR ''r'' then Some (CHR 0x0D)
      else if e = CHR ''t'' then Some (CHR 0x09)
      else None)"

definition cons_result :: "char \<Rightarrow> (string \<times> string) option \<Rightarrow> (string \<times> string) option" where
  "cons_result c r = (case r of None \<Rightarrow> None | Some (t, rest) \<Rightarrow> Some (c # t, rest))"

text \<open>The text after an opening quote, up to the closing one.\<close>

fun scan_string :: "string \<Rightarrow> (string \<times> string) option" where
  "scan_string [] = None"
| "scan_string [c] = (if c = CHR ''\"'' then Some ([], []) else None)"
| "scan_string (c # e # r) =
     (if c = CHR ''\"'' then Some ([], e # r)
      else if c = CHR 0x5C then
        (if e = CHR ''u'' then
           (case r of
              h1 # h2 # h3 # h4 # r' \<Rightarrow>
                (case hex4 h1 h2 h3 h4 of
                   Some n \<Rightarrow> (if n < 256 then cons_result (char_of n) (scan_string r') else None)
                 | None \<Rightarrow> None)
            | _ \<Rightarrow> None)
         else (case unescape e of
                 Some ch \<Rightarrow> cons_result ch (scan_string r)
               | None \<Rightarrow> None))
      else if (of_char c :: nat) < 32 then None
      else cons_result c (scan_string (e # r)))"

text \<open>An integer: an optional sign, then \<^verbatim>\<open>0\<close> or a digit sequence without a leading zero.
  A fraction or an exponent would make it a float, which is outside the model.\<close>

definition digits_val :: "string \<Rightarrow> nat" where
  "digits_val ds = foldl (\<lambda>a c. 10 * a + digit_val c) 0 ds"

definition scan_nat :: "string \<Rightarrow> (nat \<times> string) option" where
  "scan_nat s =
     (case s of
        [] \<Rightarrow> None
      | c # r \<Rightarrow>
          if c = CHR ''0'' then Some (0, r)
          else if is_digit c then Some (digits_val (takeWhile is_digit s), dropWhile is_digit s)
          else None)"

definition scan_number :: "string \<Rightarrow> (pyval \<times> string) option" where
  "scan_number s =
     (case (case s of
              [] \<Rightarrow> None
            | c # r \<Rightarrow> if c = CHR ''-'' then map_option (\<lambda>(n, t). (- int n, t)) (scan_nat r)
                       else map_option (\<lambda>(n, t). (int n, t)) (scan_nat s)) of
        None \<Rightarrow> None
      | Some (i, t) \<Rightarrow>
          (case t of
             [] \<Rightarrow> Some (PInt i, t)
           | d # u \<Rightarrow> if d = CHR ''.'' \<or> d = CHR ''e'' \<or> d = CHR ''E'' then None
                      else Some (PInt i, t)))"

fun parse_value :: "nat \<Rightarrow> string \<Rightarrow> (pyval \<times> string) option"
  and parse_elems :: "nat \<Rightarrow> string \<Rightarrow> (pyval list \<times> string) option"
  and parse_members :: "nat \<Rightarrow> string \<Rightarrow> ((string \<times> pyval) list \<times> string) option" where
  "parse_value 0 s = None"
| "parse_value (Suc n) s =
     (case s of
        [] \<Rightarrow> None
      | c # r \<Rightarrow>
          if c = CHR ''\"'' then map_option (\<lambda>(t, r'). (PStr t, r')) (scan_string r)
          else if c = CHR ''{'' then
            (case skip_ws r of
               [] \<Rightarrow> None
             | d # r' \<Rightarrow>
                 if d = CHR ''}'' then Some (PDict [], r')
                 else map_option (\<lambda>(kvs, r''). (PDict (dict_update [] kvs), r''))
                        (parse_members n (d # r')))
          else if c = CHR ''['' then
            (case skip_ws r of
               [] \<Rightarrow> None
             | d # r' \<Rightarrow>
                 if d = CHR '']'' then Some (PList [], r')
                 else map_option (\<lambda>(vs, r''). (PList vs, r'')) (parse_elems n (d # r')))
          else if c = CHR ''n'' then
            (if take 3 r = ''ull'' then Some (PNone, drop 3 r) else None)
          else if c = CHR ''t'' then
            (if take 3 r = ''rue'' then Some (PBool True, drop 3 r) else None)
          else if c = CHR ''f'' then
            (if take 4 r = ''alse'' then Some (PBool False, drop 4 r) else None)
          else scan_number s)"
| "parse_elems 0 s = None"
| "parse_elems (Suc n) s =
     (case parse_value n s of
        None \<Rightarrow> None
      | Some (v, r) \<Rightarrow>
          (case skip_ws r of
             [] \<Rightarrow> None
           | d # r' \<Rightarrow>
               if d = CHR '']'' then Some ([v], r')
               else if d = CHR '','' then
                 map_option (\<lambda>(vs, r''). (v # vs, r'')) (parse_elems n (skip_ws r'))
               else None))"
| "parse_members 0 s = None"
| "parse_members (Suc n) s =
     (case s of
        [] \<Rightarrow> None
      | q # r \<Rightarrow>
          if q \<noteq> CHR ''\"'' then None
          else
            (case scan_string r of
               None \<Rightarrow> None
             | Some (k, r1) \<Rightarrow>
                 (case skip_ws r1 of
                    [] \<Rightarrow> None
                  | c # r2 \<Rightarrow>
                      if c \<noteq> CHR '':'' then None
                      else
                        (case parse_value n (skip_ws r2) of
                           None \<Rightarrow> None
                         | Some (v, r3) \<Rightarrow>
                             (case skip_ws r3 of
                                [] \<Rightarrow> None
                              | d # r4 \<Rightarrow>
                                  if d = CHR ''}'' then Some ([(k, v)], r4)
                                  else if d = CHR '','' then
                                    map_option (\<lambda>(kvs, r5). ((k, v) # kvs, r5))
                                      (parse_members n (skip_ws r4))
                                  else None)))))"

definition json_loads :: "string \<Rightarrow> pyval option" where
  "json_loads s =
     (case parse_value (Suc (length s)) (skip_ws s) of
        None \<Rightarrow> None
      | Some (v, r) \<Rightarrow> if skip_ws r = [] then Some v else None)"

section \<open>get_audit_logs\<close>

text \<open>
  The dictionary built for a fetched row: the columns as stored, with \<^verbatim>\<open>parameters\<close>
  and \<^verbatim>\<open>result_data\<close> replaced by their decoded values.
\<close>

record log_entry =
  columns :: audit_row
  parameters_value :: pyval
  result_data_value :: pyval

text \<open>A NULL column is \<^verbatim>\<open>None\<close>; a text that is not empty is decoded, and kept as it is
  when the decoder raises \<^verbatim>\<open>JSONDecodeError\<close>.\<close>

definition parse_json_field :: "string option \<Rightarrow> pyval" where
  "parse_json_field col =
     (case col of
        None \<Rightarrow> PNone
      | Some t \<Rightarrow> if t = [] then PStr t
                  else (case json_loads t of Some v \<Rightarrow> v | None \<Rightarrow> PStr t))"

definition to_log_entry :: "audit_row \<Rightarrow> log_entry" where
  "to_log_entry r =
     \<lparr>columns = r, parameters_value = parse_json_field (parameters r),
      result_data_value = parse_json_field (result_data r)\<rparr>"

text \<open>A filter argument takes part in the WHERE clause when it is truthy: a string that is
  not empty.\<close>

definition filter_on :: "string option \<Rightarrow> (string \<Rightarrow> bool) \<Rightarrow> bool" where
  "filter_on arg p = (case arg of None \<Rightarrow> True | Some x \<Rightarrow> if x = [] then True else p x)"

definition row_matches ::
  "string option \<Rightarrow> string option \<Rightarrow> string option \<Rightarrow> string option \<Rightarrow> string option \<Rightarrow>
   string option \<Rightarrow> audit_row \<Rightarrow> bool" where
  "row_matches uid cid op_type res_type start_date end_date r =
     (filter_on uid (\<lambda>x. user_id r = x) \<and>
      filter_on cid (\<lambda>x. customer_id r = x) \<and>
      filter_on op_type (\<lambda>x. operation_type r = x) \<and>
      filter_on res_type (\<lambda>x. resource_type r = x) \<and>
      filter_on start_date (\<lambda>x. x \<le> timestamp r) \<and>
      filter_on end_date (\<lambda>x. timestamp r \<le> x))"

text \<open>\<^verbatim>\<open>LIMIT ?\<close>: a negative limit is no limit.\<close>

definition sql_limit :: "int \<Rightarrow> 'a list \<Rightarrow> 'a list" where
  "sql_limit limit xs = (if limit < 0 then xs else take (nat limit) xs)"

text \<open>
  \<^verbatim>\<open>AuditLogger.get_audit_logs\<close>. The statement ends in
  \<^verbatim>\<open>ORDER BY timestamp DESC LIMIT ?\<close>: the rows selected by the WHERE clause come in some
  order in which the timestamps do not increase, and nothing in the statement fixes the order
  of rows with equal timestamps. The predicate holds of every list the call may return.
\<close>

inductive get_audit_logs ::
  "world \<Rightarrow> int \<Rightarrow> string option \<Rightarrow> string option \<Rightarrow> string option \<Rightarrow> string option \<Rightarrow>
   string option \<Rightarrow> string option \<Rightarrow> log_entry list \<Rightarrow> bool" where
  fetch:
  "mset ordered = mset (filter (row_matches uid cid op_type res_type start_date end_date) (db_rows w))
   \<Longrightarrow> sorted_wrt (\<lambda>a b. timestamp b \<le> timestamp a) ordered
   \<Longrightarrow> get_audit_logs w limit uid cid op_type res_type start_date end_date
         (map to_log_entry (sql_limit limit ordered))"

section \<open>Errors and their decomposition\<close>

text \<open>
  An exception as the logger sees it: the name of its class, its \<^verbatim>\<open>str\<close>, whether the
  class derives from \<^verbatim>\<open>Exception\<close>, the attribute \<^verbatim>\<open>failure\<close> (with or without a list
  \<^verbatim>\<open>errors\<close>) and the \<^verbatim>\<open>str\<close> of the attribute \<^verbatim>\<open>code\<close>, when it has them. A
  sub-error has optional attributes \<^verbatim>\<open>error_code\<close>, \<^verbatim>\<open>message\<close>, \<^verbatim>\<open>location\<close>
  and its own \<^verbatim>\<open>str\<close>.
\<close>

record sub_error =
  se_error_code :: "pyval option"
  se_message :: "pyval option"
  se_location :: "pyval option"
  se_str :: string

datatype failure = Failure "sub_error list option"

record pyexc =
  exc_type_name :: string
  exc_str :: string
  exc_is_Exception :: bool
  exc_failure :: "failure option"
  exc_code :: "string option"

text \<open>An exception raised by the interpreter inside the logger; the text of its message is
  not modelled.\<close>

definition type_name :: "pyerr \<Rightarrow> string" where
  "type_name e =
     (case e of TypeError \<Rightarrow> ''TypeError'' | AttributeError \<Rightarrow> ''AttributeError''
      | KeyError \<Rightarrow> ''KeyError'' | IndexError \<Rightarrow> ''IndexError''
      | SqliteError \<Rightarrow> ''Error'')"

definition raised :: "pyerr \<Rightarrow> pyexc" where
  "raised e =
     \<lparr>exc_type_name = type_name e, exc_str = [], exc_is_Exception = True,
      exc_failure = None, exc_code = None\<rparr>"

text \<open>\<^verbatim>\<open>getattr(err, 'error_code', {}).get('name', 'UNKNOWN')\<close>: only a dictionary has
  \<^verbatim>\<open>get\<close>.\<close>

definition error_code_name :: "sub_error \<Rightarrow> pyerr + pyval" where
  "error_code_name err =
     (case se_error_code err of
        None \<Rightarrow> Inr (PStr ''UNKNOWN'')
      | Some (PDict kvs) \<Rightarrow> (case map_of kvs ''name'' of Some v \<Rightarrow> Inr v | None \<Rightarrow> Inr (PStr ''UNKNOWN''))
      | Some _ \<Rightarrow> Inl AttributeError)"

definition error_info :: "sub_error \<Rightarrow> pyerr + pyval" where
  "error_info err =
     (case error_code_name err of
        Inl e \<Rightarrow> Inl e
      | Inr c \<Rightarrow>
          Inr (PDict [(''error_code'', c),
                      (''message'', (case se_message err of Some m \<Rightarrow> m | None \<Rightarrow> PStr (se_str err))),
                      (''location'', (case se_location err of Some l \<Rightarrow> l | None \<Rightarrow> PNone))]))"

text \<open>The loop over \<^verbatim>\<open>failure.errors\<close>, with the list \<^verbatim>\<open>errors\<close> and the variable
  \<^verbatim>\<open>error_code\<close> as accumulators.\<close>

fun collect_errors :: "sub_error list \<Rightarrow> pyval list \<Rightarrow> pyval \<Rightarrow> pyerr + (pyval list \<times> pyval)" where
  "collect_errors [] errors code = Inr (errors, code)"
| "collect_errors (err # rest) errors code =
     (case error_code_name err of
        Inl e \<Rightarrow> Inl e
      | Inr c \<Rightarrow>
          (case error_info err of
             Inl e \<Rightarrow> Inl e
           | Inr info \<Rightarrow> collect_errors rest (errors @ [info]) (if code = PNone then c else code)))"

text \<open>The block that both \<^verbatim>\<open>log_error\<close> and the decorator's handler run on the exception:
  it gives \<^verbatim>\<open>error_code\<close> and \<^verbatim>\<open>error_message\<close>, or raises.\<close>

definition error_details :: "pyexc \<Rightarrow> pyerr + (pyval \<times> string)" where
  "error_details e =
     (case exc_failure e of
        Some (Failure (Some errs)) \<Rightarrow>
          (case collect_errors errs [] PNone of
             Inl x \<Rightarrow> Inl x
           | Inr (errors, code) \<Rightarrow>
               (case json_dumps (PList errors) of
                  Inl x \<Rightarrow> Inl x
                | Inr t \<Rightarrow> Inr (code, ''Google Ads API Error: '' @ t)))
      | _ \<Rightarrow>
          (case exc_code e of
             Some c \<Rightarrow> Inr (PStr c, exc_str e)
           | None \<Rightarrow> Inr (PNone, exc_str e)))"

text \<open>\<^verbatim>\<open>AuditLogger.log_error\<close>; \<open>trace\<close> is what \<^verbatim>\<open>traceback.format_exc()\<close> gives.
  An exception raised by the decomposition leaves the method (\<open>Inl\<close>).\<close>

definition log_error ::
  "log_env \<Rightarrow> string \<Rightarrow> string \<Rightarrow> string \<Rightarrow> string \<Rightarrow> pyexc \<Rightarrow> pyval \<Rightarrow> pyval \<Rightarrow> int option \<Rightarrow>
   world \<Rightarrow> pyerr + world" where
  "log_error env trace op_type res_type fn error params res_id ms w =
     (case error_details error of
        Inl x \<Rightarrow> Inl x
      | Inr (code, msg) \<Rightarrow>
          Inr (log_operation env op_type res_type fn params res_id ''ERROR'' PNone (Some msg)
                 (Some (exc_type_name error)) code (Some trace) ms w))"

section \<open>The decorator audit_log\<close>

text \<open>
  What the environment gives during one call of the wrapper: the clock at the start and when
  the elapsed time is taken (in milliseconds, so that
  \<^verbatim>\<open>int((time.time() - start_time) * 1000)\<close> is their difference), the text of
  \<^verbatim>\<open>traceback.format_exc()\<close>, and the readings of \<^verbatim>\<open>log_operation\<close>.
\<close>

record call_env =
  t_start :: int
  t_end :: int
  format_exc :: string
  log :: log_env

text \<open>The snapshot \<^verbatim>\<open>log_params\<close> of the arguments.\<close>

definition build_log_params :: "pyval list \<Rightarrow> (string \<times> pyval) list \<Rightarrow> (string \<times> pyval) list" where
  "build_log_params args kwargs =
     (let log_params = (if args \<noteq> [] then [(''args_count'', PInt (int (length args)))] else [])
      in if kwargs \<noteq> [] then
           dict_update log_params
             (filter (\<lambda>kv. fst kv \<notin> set [''client'', ''service'', ''password'', ''token'']) kwargs)
         else log_params)"

text \<open>\<^verbatim>\<open>x[0]\<close> and \<^verbatim>\<open>len(x)\<close>, with the exceptions of the values that do not support
  them (a dictionary of the model has no key \<^verbatim>\<open>0\<close>).\<close>

fun subscript0 :: "pyval \<Rightarrow> pyerr + pyval" where
  "subscript0 (PList (x # xs)) = Inr x"
| "subscript0 (PTuple (x # xs)) = Inr x"
| "subscript0 (PStr (c # cs)) = Inr (PStr [c])"
| "subscript0 (PDict kvs) = Inl KeyError"
| "subscript0 (PList []) = Inl IndexError"
| "subscript0 (PTuple []) = Inl IndexError"
| "subscript0 (PStr []) = Inl IndexError"
| "subscript0 _ = Inl TypeError"

fun py_len :: "pyval \<Rightarrow> pyerr + int" where
  "py_len (PList xs) = Inr (int (length xs))"
| "py_len (PTuple xs) = Inr (int (length xs))"
| "py_len (PStr s) = Inr (int (length s))"
| "py_len (PDict kvs) = Inr (int (length kvs))"
| "py_len _ = Inl TypeError"

text \<open>The resource id taken from the result, and the value of \<^verbatim>\<open>resource_count\<close>.\<close>

definition extract_resource_id :: "pyval \<Rightarrow> pyerr + pyval" where
  "extract_resource_id result =
     (case getattr result ''results'' of
        Some rs \<Rightarrow>
          if truthy rs then
            (case subscript0 rs of
               Inl x \<Rightarrow> Inl x
             | Inr first \<Rightarrow>
                 (case getattr first ''resource_name'' of Some n \<Rightarrow> Inr n | None \<Rightarrow> Inr PNone))
          else Inr PNone
      | None \<Rightarrow>
          (case result of
             PStr s \<Rightarrow> if CHR ''/'' \<in> set s then Inr (PStr s) else Inr PNone
           | _ \<Rightarrow> Inr PNone))"

definition resource_count :: "pyval \<Rightarrow> pyerr + pyval" where
  "resource_count result =
     (case getattr result ''results'' of
        Some rs \<Rightarrow> (case py_len rs of Inl x \<Rightarrow> Inl x | Inr n \<Rightarrow> Inr (PInt n))
      | None \<Rightarrow> Inr PNone)"

text \<open>The handler \<^verbatim>\<open>except Exception as e\<close> of the wrapper: it decomposes the error,
  logs an ERROR entry and raises \<^verbatim>\<open>e\<close>; an exception raised by the decomposition leaves
  the wrapper instead.\<close>

definition on_exception ::
  "string \<Rightarrow> string \<Rightarrow> string \<Rightarrow> call_env \<Rightarrow> (string \<times> pyval) list \<Rightarrow> pyexc \<Rightarrow> world \<Rightarrow>
   (pyexc + pyval) \<times> world" where
  "on_exception op_type res_type fn env log_params e w =
     (case error_details e of
        Inl x \<Rightarrow> (Inl (raised x), w)
      | Inr (code, msg) \<Rightarrow>
          (Inl e,
           log_operation (log env) op_type res_type fn (PDict log_params) PNone ''ERROR'' PNone
             (Some msg) (Some (exc_type_name e)) code (Some (format_exc env))
             (Some (t_end env - t_start env)) w))"

text \<open>
  The function \<^verbatim>\<open>wrapper\<close> that \<^verbatim>\<open>audit_log(operation_type, resource_type)\<close> puts
  around \<^verbatim>\<open>func\<close>; \<open>fn\<close> is \<^verbatim>\<open>func.__name__\<close>. The wrapped operation runs on the
  same world (it may log entries of its own) and returns a value (\<open>Inr\<close>) or raises
  (\<open>Inl\<close>). An exception of the statements after the call (the subscript, \<^verbatim>\<open>len\<close>) is
  raised inside the \<^verbatim>\<open>try\<close> and reaches the handler too.
\<close>

definition wrapper ::
  "string \<Rightarrow> string \<Rightarrow> string \<Rightarrow>
   (pyval list \<Rightarrow> (string \<times> pyval) list \<Rightarrow> world \<Rightarrow> (pyexc + pyval) \<times> world) \<Rightarrow>
   call_env \<Rightarrow> pyval list \<Rightarrow> (string \<times> pyval) list \<Rightarrow> world \<Rightarrow> (pyexc + pyval) \<times> world" where
  "wrapper op_type res_type fn func env args kwargs w =
     (let log_params = build_log_params args kwargs in
      case func args kwargs w of
        (Inl e, w1) \<Rightarrow>
          if exc_is_Exception e then on_exception op_type res_type fn env log_params e w1
          else (Inl e, w1)
      | (Inr result, w1) \<Rightarrow>
          (case extract_resource_id result of
             Inl x \<Rightarrow> on_exception op_type res_type fn env log_params (raised x) w1
           | Inr rid \<Rightarrow>
               (case resource_count result of
                  Inl x \<Rightarrow> on_exception op_type res_type fn env log_params (raised x) w1
                | Inr cnt \<Rightarrow>
                    (Inr result,
                     log_operation (log env) op_type res_type fn (PDict log_params) rid
                       ''SUCCESS'' (PDict [(''resource_count'', cnt)]) None None PNone None
                       (Some (t_end env - t_start env)) w1))))"

section \<open>Auxiliary definitions\<close>

subsection \<open>When an entry is stored\<close>

text \<open>Whether \<^verbatim>\<open>execute\<close> can bind a value, and whether it binds it to a value other than
  NULL.\<close>

definition bindable :: "pyval \<Rightarrow> bool" where
  "bindable v = (case bind_text v of Inr x \<Rightarrow> True | Inl e \<Rightarrow> False)"

definition binds_not_null :: "pyval \<Rightarrow> bool" where
  "binds_not_null v = (case bind_text v of Inr (Some x) \<Rightarrow> True | _ \<Rightarrow> False)"

text \<open>Whether \<^verbatim>\<open>json.dumps(x) if x else None\<close> gives a value.\<close>

definition dumpable :: "pyval \<Rightarrow> bool" where
  "dumpable v = (if truthy v then serializable v else True)"

text \<open>The condition under which \<^verbatim>\<open>log_operation\<close> stores a row: both JSON columns can be
  written, the resource id and the error code can be bound, and the user and the customer resolve
  to values that are not NULL.\<close>

definition log_succeeds :: "log_env \<Rightarrow> pyval \<Rightarrow> pyval \<Rightarrow> pyval \<Rightarrow> pyval \<Rightarrow> world \<Rightarrow> bool" where
  "log_succeeds env params res_id rdata ecode w =
     (dumpable params \<and> dumpable rdata \<and> bindable res_id \<and> bindable ecode \<and>
      binds_not_null (fst (get_user_id (now_user env) (env_user_id w) (sess w))) \<and>
      binds_not_null (get_customer_id (sess w)))"

subsection \<open>What the claims refer to\<close>

text \<open>The names that the wrapper leaves out of the snapshot.\<close>

definition sensitive_names :: "string list" where
  "sensitive_names = [''client'', ''service'', ''password'', ''token'']"

text \<open>The resource id that claim C7 names for a result: the result itself when it is a string
  containing \<^verbatim>\<open>/\<close>, the \<^verbatim>\<open>resource_name\<close> of the first sub-result when the result has a
  list \<^verbatim>\<open>results\<close> that is not empty and whose first element has that field (a string).\<close>

definition spec_resource_id :: "pyval \<Rightarrow> string option" where
  "spec_resource_id result =
     (case result of
        PStr s \<Rightarrow> if CHR ''/'' \<in> set s then Some s else None
      | PObj c as \<Rightarrow>
          (case map_of as ''results'' of
             Some (PList (first # rest)) \<Rightarrow>
               (case getattr first ''resource_name'' of Some (PStr n) \<Rightarrow> Some n | _ \<Rightarrow> None)
           | _ \<Rightarrow> None)
      | _ \<Rightarrow> None)"





subsection \<open>Example inputs\<close>

text \<open>A session with a user, a customer and a session id, and an empty table; readings of the
  clock.\<close>

definition example_world :: world where
  "example_world =
     \<lparr>sess = \<lparr>ss_user_id = Some (PStr ''alice''), ss_generated_user_id = None,
              ss_customer_id = Some (PStr ''1234567890''), ss_session_id = Some ''session_1700000000''\<rparr>,
      env_user_id = None, db_rows = [], db_seq = 0\<rparr>"

definition example_env :: log_env where
  "example_env = \<lparr>now_user = 1700000000, now_session = 1700000000,
                  current_timestamp = ''2024-01-01 10:00:00''\<rparr>"

text \<open>Readings of one call of the wrapper; an operation that returns a resource name and one
  that raises \<^verbatim>\<open>ValueError("boom")\<close>.\<close>

definition example_call_env :: call_env where
  "example_call_env =
     \<lparr>t_start = 1700000000000, t_end = 1700000000042,
      format_exc = ''Traceback (most recent call last): ...'', log = example_env\<rparr>"

definition example_exc :: pyexc where
  "example_exc =
     \<lparr>exc_type_name = ''ValueError'', exc_str = ''boom'', exc_is_Exception = True,
      exc_failure = None, exc_code = None\<rparr>"

definition returns_resource_name ::
  "pyval list \<Rightarrow> (string \<times> pyval) list \<Rightarrow> world \<Rightarrow> (pyexc + pyval) \<times> world" where
  "returns_resource_name args kwargs w = (Inr (PStr ''customers/1/campaigns/2''), w)"

definition raises_boom ::
  "pyval list \<Rightarrow> (string \<times> pyval) list \<Rightarrow> world \<Rightarrow> (pyexc + pyval) \<times> world" where
  "raises_boom args kwargs w = (Inl example_exc, w)"

text \<open>A vendor exception as the Google Ads client raises it: the \<^verbatim>\<open>error_code\<close> of a
  sub-error is a message object, not a dictionary.\<close>

definition vendor_exc :: pyexc where
  "vendor_exc =
     \<lparr>exc_type_name = ''GoogleAdsException'', exc_str = ''request failed'',
      exc_is_Exception = True,
      exc_failure = Some (Failure (Some
        [\<lparr>se_error_code = Some (PObj ''ErrorCode'' [(''campaign_budget_error'', PStr ''DUPLICATE_NAME'')]),
          se_message = Some (PStr ''A campaign budget with this name already exists.''),
          se_location = Some (PObj ''ErrorLocation'' []),
          se_str = ''error_code { campaign_budget_error: DUPLICATE_NAME }''\<rparr>])),
      exc_code = None\<rparr>"


text \<open>The rows that the example calls store, and the table after two inserts within one
  second.\<close>

definition example_row :: audit_row where
  "example_row =
     \<lparr>row_id = 1, timestamp = ''2024-01-01 10:00:00'', user_id = ''alice'',
      customer_id = ''1234567890'', operation_type = ''CREATE'', resource_type = ''CAMPAIGN'',
      resource_id = None, function_name = ''create_campaign'', parameters = None,
      result_status = Some ''SUCCESS'', result_data = None, error_message = None,
      error_type = None, error_code = None, stack_trace = None, execution_time_ms = Some 7,
      session_id = ''session_1700000000''\<rparr>"




definition example_success_row :: audit_row where
  "example_success_row =
     \<lparr>row_id = 1, timestamp = ''2024-01-01 10:00:00'', user_id = ''alice'',
      customer_id = ''1234567890'', operation_type = ''CREATE'', resource_type = ''CAMPAIGN'',
      resource_id = Some ''customers/1/campaigns/2'', function_name = ''create_campaign'',
      parameters = Some (encode (PDict [(''args_count'', PInt 1), (''name'', PStr ''Spring'')])),
      result_status = Some ''SUCCESS'',
      result_data = Some (encode (PDict [(''resource_count'', PNone)])), error_message = None,
      error_type = None, error_code = None, stack_trace = None, execution_time_ms = Some 42,
      session_id = ''session_1700000000''\<rparr>"

definition example_error_row :: audit_row where
  "example_error_row =
     \<lparr>row_id = 1, timestamp = ''2024-01-01 10:00:00'', user_id = ''alice'',
      customer_id = ''1234567890'', operation_type = ''CREATE'', resource_type = ''CAMPAIGN'',
      resource_id = None, function_name = ''create_campaign'',
      parameters = Some (encode (PDict [(''args_count'', PInt 1), (''name'', PStr ''Spring'')])),
      result_status = Some ''ERROR'', result_data = None, error_message = Some ''boom'',
      error_type = Some ''ValueError'', error_code = None,
      stack_trace = Some ''Traceback (most recent call last): ...'',
      execution_time_ms = Some 42, session_id = ''session_1700000000''\<rparr>"


section \<open>Dictionaries and the snapshot of the arguments\<close>


lemma keys_dict_set: "fst ` set (dict_set k v d) = insert k (fst ` set d)"
  by (induction d) auto

lemma keys_dict_update: "fst ` set (dict_update d ps) = fst ` set d \<union> fst ` set ps"
  by (induction ps arbitrary: d) (auto simp: keys_dict_set)





lemma build_log_params_keys:
  "fst ` set (build_log_params args kwargs) =
     (if args \<noteq> [] then {''args_count''} else {}) \<union>
     {k \<in> fst ` set kwargs. k \<notin> set sensitive_names}"
  by (auto simp: build_log_params_def Let_def keys_dict_update sensitive_names_def image_iff)

lemma build_log_params_drop:
  assumes "k \<in> set sensitive_names"
  shows "build_log_params args (filter (\<lambda>kv. fst kv \<noteq> k) kwargs) = build_log_params args kwargs"
proof -
  let ?ok = "\<lambda>kv. fst kv \<notin> set [''client'', ''service'', ''password'', ''token'']"
  have f: "filter ?ok (filter (\<lambda>kv. fst kv \<noteq> k) kwargs) = filter ?ok kwargs"
    using assms by (induction kwargs) (auto simp: sensitive_names_def)
  show ?thesis
  proof (cases "filter (\<lambda>kv. fst kv \<noteq> k) kwargs = []")
    case True
    with f have "filter ?ok kwargs = []" by simp
    with True show ?thesis by (simp add: build_log_params_def Let_def)
  next
    case False
    then have "kwargs \<noteq> []" by auto
    with False f show ?thesis by (simp add: build_log_params_def Let_def)
  qed
qed




section \<open>The decoder inverts the encoder\<close>



































section \<open>Properties of log_operation and get_audit_logs\<close>

lemma get_customer_id_after_user [simp]:
  "get_customer_id (snd (get_user_id n e ss)) = get_customer_id ss"
  by (simp add: get_user_id_def get_customer_id_def split: option.splits list.splits)

lemma get_user_id_customer:
  "get_user_id n e ss = (a, b) \<Longrightarrow> get_customer_id b = get_customer_id ss"
  using get_customer_id_after_user [of n e ss] by simp

lemma dumps_if_truthy_Inr: "dumpable v \<Longrightarrow> \<exists>c. dumps_if_truthy v = Inr c"
  by (simp add: dumpable_def dumps_if_truthy_def json_dumps_def split: if_splits)

lemma dumps_if_truthy_Inl: "\<not> dumpable v \<Longrightarrow> dumps_if_truthy v = Inl TypeError"
  by (simp add: dumpable_def dumps_if_truthy_def json_dumps_def split: if_splits)

lemma log_operation_dropped:
  "\<not> log_succeeds env p rid rd ec w \<Longrightarrow>
   db_rows (log_operation env ot rt fn p rid st rd em et ec tr ms w) = db_rows w \<and>
   db_seq (log_operation env ot rt fn p rid st rd em et ec tr ms w) = db_seq w"
  apply (cases "get_user_id (now_user env) (env_user_id w) (sess w)")
  apply (frule get_user_id_customer)
  apply (cases "dumpable p")
   apply (cases "dumpable rd")
  apply (auto simp: log_operation_def log_succeeds_def execute_insert_def bindable_def binds_not_null_def
       dumps_if_truthy_Inl
      dest!: dumps_if_truthy_Inr  split: prod.splits sum.splits option.splits)
  done

lemma log_operation_row:
  assumes "db_rows (log_operation env ot rt fn p rid st rd em et ec tr ms w) = db_rows w @ [r]"
  shows "row_id r = Suc (db_seq w) \<and> timestamp r = current_timestamp env \<and>
         operation_type r = ot \<and> resource_type r = rt \<and> function_name r = fn \<and>
         result_status r = Some st \<and> error_message r = em \<and> error_type r = et \<and>
         stack_trace r = tr \<and> execution_time_ms r = ms \<and>
         dumps_if_truthy p = Inr (parameters r) \<and> dumps_if_truthy rd = Inr (result_data r) \<and>
         bind_text rid = Inr (resource_id r) \<and> bind_text ec = Inr (error_code r) \<and>
         bind_text (fst (get_user_id (now_user env) (env_user_id w) (sess w))) = Inr (Some (user_id r)) \<and>
         bind_text (get_customer_id (sess w)) = Inr (Some (customer_id r))"
  using assms
  apply (cases "get_user_id (now_user env) (env_user_id w) (sess w)")
  apply (frule get_user_id_customer)
  apply (auto simp: log_operation_def execute_insert_def split: prod.splits sum.splits option.splits)
  done

lemma log_operation_persists:
  "log_succeeds env p rid rd ec w \<Longrightarrow>
   \<exists>r. db_rows (log_operation env ot rt fn p rid st rd em et ec tr ms w) = db_rows w @ [r]"
  apply (cases "get_user_id (now_user env) (env_user_id w) (sess w)")
  apply (frule get_user_id_customer)
  apply (auto simp: log_operation_def log_succeeds_def execute_insert_def bindable_def binds_not_null_def
      dest!: dumps_if_truthy_Inr  split: prod.splits sum.splits option.splits)
  done

lemma get_audit_logs_entries:
  "get_audit_logs w limit a b c d s t res \<Longrightarrow> e \<in> set res \<Longrightarrow>
   e = to_log_entry (columns e) \<and> columns e \<in> set (db_rows w)"
proof (induction rule: get_audit_logs.induct)
  case (fetch ordered uid cid op_type res_type start_date end_date w limit)
  from fetch(3) obtain r where r: "r \<in> set (sql_limit limit ordered)" "e = to_log_entry r"
    by auto
  from r(1) have "r \<in> set ordered"
    by (auto simp: sql_limit_def split: if_splits dest: in_set_takeD)
  then have "r \<in># mset ordered" by simp
  with fetch(1) have "r \<in> set (db_rows w)"
    by simp
  with r(2) show ?case by (simp add: to_log_entry_def)
qed

lemma row_matches_no_filter [simp]: "row_matches None None None None None None r"
  by (simp add: row_matches_def filter_on_def)

lemma columns_to_log_entry [simp]: "columns (to_log_entry r) = r"
  by (simp add: to_log_entry_def)



section \<open>Properties of the wrapper\<close>

lemma wrapper_cases:
  obtains
    (passed) e w1 where "func args kwargs w = (Inl e, w1)" "\<not> exc_is_Exception e"
      "wrapper ot rt fn func env args kwargs w = (Inl e, w1)"
  | (raised_by_call) e w1 where "func args kwargs w = (Inl e, w1)" "exc_is_Exception e"
      "wrapper ot rt fn func env args kwargs w =
         on_exception ot rt fn env (build_log_params args kwargs) e w1"
  | (raised_after_call) result w1 x where "func args kwargs w = (Inr result, w1)"
      "wrapper ot rt fn func env args kwargs w =
         on_exception ot rt fn env (build_log_params args kwargs) (raised x) w1"
  | (returned) result w1 rid cnt where "func args kwargs w = (Inr result, w1)"
      "extract_resource_id result = Inr rid" "resource_count result = Inr cnt"
      "wrapper ot rt fn func env args kwargs w =
         (Inr result,
          log_operation (log env) ot rt fn (PDict (build_log_params args kwargs)) rid ''SUCCESS''
            (PDict [(''resource_count'', cnt)]) None None PNone None
            (Some (t_end env - t_start env)) w1)"
proof (cases "func args kwargs w")
  case (Pair out w1)
  show thesis
  proof (cases out)
    case (Inl e)
    with Pair passed raised_by_call show ?thesis
      by (cases "exc_is_Exception e") (simp_all add: wrapper_def)
  next
    case (Inr result)
    show ?thesis
    proof (cases "extract_resource_id result")
      case (Inl x)
      with Pair Inr raised_after_call show ?thesis by (simp add: wrapper_def)
    next
      case rid: (Inr rid)
      show ?thesis
      proof (cases "resource_count result")
        case (Inl x)
        with Pair Inr rid raised_after_call show ?thesis by (simp add: wrapper_def)
      next
        case cnt: (Inr cnt)
        with Pair Inr rid returned show ?thesis by (simp add: wrapper_def)
      qed
    qed
  qed
qed

lemma on_exception_cases:
  obtains
    (escaped) x where "error_details e = Inl x"
      "on_exception ot rt fn env lp e w = (Inl (raised x), w)"
  | (logged) code msg where "error_details e = Inr (code, msg)"
      "on_exception ot rt fn env lp e w =
         (Inl e,
          log_operation (log env) ot rt fn (PDict lp) PNone ''ERROR'' PNone (Some msg)
            (Some (exc_type_name e)) code (Some (format_exc env))
            (Some (t_end env - t_start env)) w)"
  by (cases "error_details e") (auto simp: on_exception_def)

lemma on_exception_row:
  assumes "db_rows (snd (on_exception ot rt fn env lp e w)) = db_rows w @ [r]"
  shows "dumps_if_truthy (PDict lp) = Inr (parameters r) \<and>
         result_status r = Some ''ERROR'' \<and> error_message r \<noteq> None \<and> error_type r \<noteq> None \<and>
         stack_trace r \<noteq> None \<and> result_data r = None \<and> resource_id r = None \<and>
         fst (on_exception ot rt fn env lp e w) = Inl e"
proof (cases rule: on_exception_cases [of e ot rt fn env lp w])
  case (escaped x)
  with assms show ?thesis by simp
next
  case (logged code msg)
  with assms have "db_rows (log_operation (log env) ot rt fn (PDict lp) PNone ''ERROR'' PNone (Some msg)
            (Some (exc_type_name e)) code (Some (format_exc env))
            (Some (t_end env - t_start env)) w) = db_rows w @ [r]" by simp
  from log_operation_row [OF this] logged(2) show ?thesis
    by (auto simp: dumps_if_truthy_def)
qed

lemma wrapper_row:
  assumes "db_rows (snd (wrapper ot rt fn func env args kwargs w))
           = db_rows (snd (func args kwargs w)) @ [r]"
  shows "dumps_if_truthy (PDict (build_log_params args kwargs)) = Inr (parameters r) \<and>
         ((result_status r = Some ''SUCCESS'' \<and> error_message r = None \<and> error_type r = None \<and>
           error_code r = None \<and> stack_trace r = None \<and> result_data r \<noteq> None) \<or>
          (result_status r = Some ''ERROR'' \<and> error_message r \<noteq> None \<and> error_type r \<noteq> None \<and>
           stack_trace r \<noteq> None \<and> result_data r = None \<and> resource_id r = None))"
proof (cases rule: wrapper_cases [of func args kwargs w ot rt fn env])
  case (passed e w1)
  with assms show ?thesis by simp
next
  case (raised_by_call e w1)
  with assms on_exception_row [of ot rt fn env "build_log_params args kwargs" e w1 r]
  show ?thesis by simp
next
  case (raised_after_call result w1 x)
  with assms on_exception_row [of ot rt fn env "build_log_params args kwargs" "raised x" w1 r]
  show ?thesis by simp
next
  case (returned result w1 rid cnt)
  with assms have "db_rows (log_operation (log env) ot rt fn (PDict (build_log_params args kwargs)) rid
            ''SUCCESS'' (PDict [(''resource_count'', cnt)]) None None PNone None
            (Some (t_end env - t_start env)) w1) = db_rows w1 @ [r]" by simp
  from log_operation_row [OF this]
  have a: "dumps_if_truthy (PDict (build_log_params args kwargs)) = Inr (parameters r)"
    and b: "dumps_if_truthy (PDict [(''resource_count'', cnt)]) = Inr (result_data r)"
    and c: "result_status r = Some ''SUCCESS''" "error_message r = None" "error_type r = None"
      "stack_trace r = None" "bind_text PNone = Inr (error_code r)"
    by simp_all
  from b have "result_data r \<noteq> None"
    by (cases "result_data r") (auto simp: dumps_if_truthy_def split: sum.splits)
  with a c show ?thesis by simp
qed

lemma spec_resource_id_extract:
  assumes "spec_resource_id result = Some rid"
  shows "extract_resource_id result = Inr (PStr rid) \<and>
         (\<exists>cnt. resource_count result = Inr cnt \<and> dumpable (PDict [(''resource_count'', cnt)]))"
proof (cases result)
  case (PStr s)
  with assms show ?thesis
    by (auto simp: spec_resource_id_def extract_resource_id_def resource_count_def dumpable_def
        split: if_splits)
next
  case (PObj c as)
  with assms obtain first rest where rs: "map_of as ''results'' = Some (PList (first # rest))"
    and n: "getattr first ''resource_name'' = Some (PStr rid)"
    by (auto simp: spec_resource_id_def split: option.splits pyval.splits list.splits)
  with PObj show ?thesis
    by (simp add: extract_resource_id_def resource_count_def dumpable_def)
qed (use assms in \<open>simp_all add: spec_resource_id_def\<close>)

lemma log_succeeds_args:
  "bindable rid \<Longrightarrow> bindable ec \<Longrightarrow> dumpable rd \<Longrightarrow>
   log_succeeds env p rid rd ec w = log_succeeds env p PNone PNone PNone w"
  by (simp add: log_succeeds_def bindable_def dumpable_def)

lemma error_details_plain:
  "exc_failure e = None \<Longrightarrow>
   error_details e = Inr ((case exc_code e of Some c \<Rightarrow> PStr c | None \<Rightarrow> PNone), exc_str e)"
  by (simp add: error_details_def split: option.splits)

section \<open>The examples, evaluated\<close>

lemmas example_defs =
  example_world_def example_env_def example_call_env_def example_exc_def
  returns_resource_name_def raises_boom_def

lemmas run_defs =
  wrapper_def on_exception_def error_details_def build_log_params_def extract_resource_id_def
  resource_count_def log_operation_def dumps_if_truthy_def json_dumps_def get_user_id_def
  get_customer_id_def get_session_id_def execute_insert_def

lemma example_world_rows: "db_rows example_world = []"
  by (simp add: example_world_def)

lemma example_log_empty:
  "log_operation example_env ''CREATE'' ''CAMPAIGN'' ''create_campaign'' (PDict []) PNone
     ''SUCCESS'' (PInt 0) None None PNone None (Some 7) example_world
   = example_world\<lparr>db_rows := [example_row], db_seq := 1\<rparr>"
  by (simp add: log_operation_def dumps_if_truthy_def get_user_id_def get_customer_id_def
      get_session_id_def execute_insert_def example_world_def example_env_def example_row_def)

lemma example_query_empty:
  "get_audit_logs (example_world\<lparr>db_rows := [example_row], db_seq := 1\<rparr>) 100 None None None None
     None None [to_log_entry example_row]"
  using get_audit_logs.fetch [of "[example_row]" None None None None None None
      "example_world\<lparr>db_rows := [example_row], db_seq := 1\<rparr>" 100]
  by (simp add: row_matches_def filter_on_def sql_limit_def)





lemma example_wrapper_returns:
  "wrapper ''CREATE'' ''CAMPAIGN'' ''create_campaign'' returns_resource_name example_call_env
     [PObj ''CampaignManager'' []] [(''name'', PStr ''Spring''), (''password'', PStr ''hunter2'')]
     example_world
   = (Inr (PStr ''customers/1/campaigns/2''),
      example_world\<lparr>db_rows := [example_success_row], db_seq := 1\<rparr>)"
  by (simp add: run_defs example_defs example_success_row_def)

lemma example_wrapper_raises:
  "wrapper ''CREATE'' ''CAMPAIGN'' ''create_campaign'' raises_boom example_call_env
     [PObj ''CampaignManager'' []] [(''name'', PStr ''Spring''), (''password'', PStr ''hunter2'')]
     example_world
   = (Inl example_exc, example_world\<lparr>db_rows := [example_error_row], db_seq := 1\<rparr>)"
  by (simp add: run_defs example_defs example_error_row_def)

lemma example_wrapper_returns_row:
  "db_rows (snd (wrapper ''CREATE'' ''CAMPAIGN'' ''create_campaign'' returns_resource_name
       example_call_env [PObj ''CampaignManager'' []]
       [(''name'', PStr ''Spring''), (''password'', PStr ''hunter2'')] example_world))
   = db_rows (snd (returns_resource_name [PObj ''CampaignManager'' []]
       [(''name'', PStr ''Spring''), (''password'', PStr ''hunter2'')] example_world))
     @ [example_success_row]"
  by (simp add: example_wrapper_returns) (simp add: returns_resource_name_def example_world_def)

lemma example_wrapper_raises_row:
  "db_rows (snd (wrapper ''CREATE'' ''CAMPAIGN'' ''create_campaign'' raises_boom
       example_call_env [PObj ''CampaignManager'' []]
       [(''name'', PStr ''Spring''), (''password'', PStr ''hunter2'')] example_world))
   = db_rows (snd (raises_boom [PObj ''CampaignManager'' []]
       [(''name'', PStr ''Spring''), (''password'', PStr ''hunter2'')] example_world))
     @ [example_error_row]"
  by (simp add: example_wrapper_raises) (simp add: raises_boom_def example_world_def)

section \<open>The claims\<close>

subsection \<open>Claim C1\<close>

text \<open>
  Claim C1, as the code has it. When the wrapped operation raises an exception \<open>e\<close> (an
  instance of \<^verbatim>\<open>Exception\<close>) whose decomposition by the handler succeeds, the wrapper raises
  \<open>e\<close> itself; it stores exactly one entry, with the status \<^verbatim>\<open>ERROR\<close>, when
  \<^verbatim>\<open>log_operation\<close> can write the snapshot and the identity, and none otherwise.
\<close>

theorem error_reraised_and_logged:
  assumes "func args kwargs w = (Inl e, w1)" and "exc_is_Exception e"
    and "error_details e = Inr (code, msg)"
  shows "fst (wrapper ot rt fn func env args kwargs w) = Inl e \<and>
         (if log_succeeds (log env) (PDict (build_log_params args kwargs)) PNone PNone code w1
          then \<exists>r. db_rows (snd (wrapper ot rt fn func env args kwargs w)) = db_rows w1 @ [r] \<and>
                   result_status r = Some ''ERROR'' \<and> error_message r = Some msg \<and>
                   error_type r = Some (exc_type_name e)
          else db_rows (snd (wrapper ot rt fn func env args kwargs w)) = db_rows w1)"
proof -
  let ?lp = "PDict (build_log_params args kwargs)"
  let ?w' = "log_operation (log env) ot rt fn ?lp PNone ''ERROR'' PNone (Some msg)
               (Some (exc_type_name e)) code (Some (format_exc env))
               (Some (t_end env - t_start env)) w1"
  have wr: "wrapper ot rt fn func env args kwargs w = (Inl e, ?w')"
    using assms by (simp add: wrapper_def on_exception_def)
  show ?thesis
  proof (cases "log_succeeds (log env) ?lp PNone PNone code w1")
    case True
    with log_operation_persists obtain r where r: "db_rows ?w' = db_rows w1 @ [r]" by blast
    from log_operation_row [OF r]
    have "result_status r = Some ''ERROR'' \<and> error_message r = Some msg \<and>
          error_type r = Some (exc_type_name e)" by simp
    with r wr True show ?thesis by auto
  next
    case False
    with log_operation_dropped have "db_rows ?w' = db_rows w1" by blast
    with wr False show ?thesis by simp
  qed
qed

text \<open>The theorem at a call that raises \<^verbatim>\<open>ValueError("boom")\<close>.\<close>

theorem error_reraised_and_logged_witness:
  "raises_boom [PObj ''CampaignManager'' []]
       [(''name'', PStr ''Spring''), (''password'', PStr ''hunter2'')] example_world
     = (Inl example_exc, example_world) \<and>
   exc_is_Exception example_exc \<and> error_details example_exc = Inr (PNone, ''boom'') \<and>
   log_succeeds (log example_call_env)
     (PDict (build_log_params [PObj ''CampaignManager'' []]
        [(''name'', PStr ''Spring''), (''password'', PStr ''hunter2'')])) PNone PNone PNone
     example_world \<and>
   fst (wrapper ''CREATE'' ''CAMPAIGN'' ''create_campaign'' raises_boom
       example_call_env [PObj ''CampaignManager'' []]
       [(''name'', PStr ''Spring''), (''password'', PStr ''hunter2'')] example_world)
     = Inl example_exc \<and>
   db_rows (snd (wrapper ''CREATE'' ''CAMPAIGN'' ''create_campaign'' raises_boom
       example_call_env [PObj ''CampaignManager'' []]
       [(''name'', PStr ''Spring''), (''password'', PStr ''hunter2'')] example_world))
     = db_rows example_world @ [example_error_row] \<and>
   result_status example_error_row = Some ''ERROR''"
proof -
  have h1: "raises_boom [PObj ''CampaignManager'' []]
       [(''name'', PStr ''Spring''), (''password'', PStr ''hunter2'')] example_world
     = (Inl example_exc, example_world)"
    by (simp add: raises_boom_def)
  have h2: "exc_is_Exception example_exc" by (simp add: example_exc_def)
  have h3: "error_details example_exc = Inr (PNone, ''boom'')"
    by (simp add: error_details_def example_exc_def)
  have h4: "log_succeeds (log example_call_env)
     (PDict (build_log_params [PObj ''CampaignManager'' []]
        [(''name'', PStr ''Spring''), (''password'', PStr ''hunter2'')])) PNone PNone PNone
     example_world"
    by (simp add: log_succeeds_def dumpable_def bindable_def binds_not_null_def
        build_log_params_def get_user_id_def get_customer_id_def example_defs)
  from error_reraised_and_logged [where func = raises_boom
      and args = "[PObj ''CampaignManager'' []]"
      and kwargs = "[(''name'', PStr ''Spring''), (''password'', PStr ''hunter2'')]"
      and w = example_world and ot = "''CREATE''" and rt = "''CAMPAIGN''"
      and fn = "''create_campaign''" and env = example_call_env, OF h1 h2 h3] h1 h2 h3 h4
  show ?thesis
    by (simp add: example_wrapper_raises example_world_rows example_error_row_def)
qed

text \<open>
  Claim C1 as stated fails: with a keyword argument that \<^verbatim>\<open>json.dumps\<close> cannot convert,
  \<^verbatim>\<open>log_operation\<close> swallows the \<^verbatim>\<open>TypeError\<close>, and the wrapper raises the exception
  without any entry being persisted.
\<close>

theorem error_not_logged_counterexample:
  "wrapper ''UPDATE'' ''BIDDING_STRATEGY'' ''apply_bidding_strategy_to_campaign'' raises_boom
     example_call_env [PObj ''BiddingManager'' []] [(''target_cpa'', PObj ''Decimal'' [])]
     example_world
   = (Inl example_exc, example_world) \<and> db_rows example_world = []"
  by (simp add: run_defs example_defs)

subsection \<open>Claim C2\<close>




subsection \<open>Claim C3\<close>

text \<open>
  Claim C3, as the code has it. For the row that the wrapper stores, the \<^verbatim>\<open>parameters\<close>
  column is the JSON text of the snapshot (NULL when the snapshot is empty). A keyword argument
  named \<^verbatim>\<open>client\<close>, \<^verbatim>\<open>service\<close>, \<^verbatim>\<open>password\<close> or \<^verbatim>\<open>token\<close> is not a key of the
  snapshot, and the snapshot is the one of the same call without that argument, so neither the
  key nor its value reaches the store. These four names are the whole denylist: a keyword
  argument of any other name is a key of the snapshot.
\<close>

theorem sensitive_parameters_not_stored:
  assumes "db_rows (snd (wrapper ot rt fn func env args kwargs w))
           = db_rows (snd (func args kwargs w)) @ [r]"
    and "k \<in> set [''client'', ''service'', ''password'', ''token'']"
  shows "dumps_if_truthy (PDict (build_log_params args kwargs)) = Inr (parameters r) \<and>
         k \<notin> fst ` set (build_log_params args kwargs) \<and>
         build_log_params args kwargs = build_log_params args (filter (\<lambda>kv. fst kv \<noteq> k) kwargs) \<and>
         (\<forall>kv \<in> set kwargs. fst kv \<notin> set [''client'', ''service'', ''password'', ''token''] \<longrightarrow>
            fst kv \<in> fst ` set (build_log_params args kwargs))"
proof -
  from assms(2) have k: "k \<in> set sensitive_names" by (simp add: sensitive_names_def)
  have "k \<noteq> ''args_count''" using assms(2) by auto
  with k have "k \<notin> fst ` set (build_log_params args kwargs)"
    by (simp add: build_log_params_keys)
  moreover have "\<forall>kv \<in> set kwargs. fst kv \<notin> set [''client'', ''service'', ''password'', ''token''] \<longrightarrow>
            fst kv \<in> fst ` set (build_log_params args kwargs)"
    by (auto simp: build_log_params_keys sensitive_names_def)
  ultimately show ?thesis
    using wrapper_row [OF assms(1)] build_log_params_drop [OF k, of args kwargs] by simp
qed

text \<open>The theorem at a call with a keyword argument \<^verbatim>\<open>password\<close>.\<close>

theorem sensitive_parameters_not_stored_witness:
  "db_rows (snd (wrapper ''CREATE'' ''CAMPAIGN'' ''create_campaign'' returns_resource_name
       example_call_env [PObj ''CampaignManager'' []]
       [(''name'', PStr ''Spring''), (''password'', PStr ''hunter2'')] example_world))
   = db_rows (snd (returns_resource_name [PObj ''CampaignManager'' []]
       [(''name'', PStr ''Spring''), (''password'', PStr ''hunter2'')] example_world))
     @ [example_success_row] \<and>
   ''password'' \<in> set [''client'', ''service'', ''password'', ''token''] \<and>
   parameters example_success_row
     = Some (encode (PDict [(''args_count'', PInt 1), (''name'', PStr ''Spring'')])) \<and>
   ''password'' \<notin> fst ` set (build_log_params [PObj ''CampaignManager'' []]
       [(''name'', PStr ''Spring''), (''password'', PStr ''hunter2'')]) \<and>
   build_log_params [PObj ''CampaignManager'' []]
       [(''name'', PStr ''Spring''), (''password'', PStr ''hunter2'')]
     = build_log_params [PObj ''CampaignManager'' []] [(''name'', PStr ''Spring'')] \<and>
   ''name'' \<notin> set [''client'', ''service'', ''password'', ''token''] \<and>
   ''name'' \<in> fst ` set (build_log_params [PObj ''CampaignManager'' []]
       [(''name'', PStr ''Spring''), (''password'', PStr ''hunter2'')])"
proof -
  have h2: "''password'' \<in> set [''client'', ''service'', ''password'', ''token'']" by simp
  from sensitive_parameters_not_stored [OF example_wrapper_returns_row h2]
    example_wrapper_returns_row h2
  show ?thesis by (simp add: example_success_row_def build_log_params_def)
qed

text \<open>
  Claim C3 as stated fails for the denylist it names (credentials, tokens, secrets, passwords):
  a keyword argument named \<^verbatim>\<open>credentials\<close> is stored, key and value.
\<close>

theorem credentials_keyword_stored_counterexample:
  "map parameters (db_rows (snd (wrapper ''CREATE'' ''CAMPAIGN'' ''create_campaign''
       returns_resource_name example_call_env [PObj ''CampaignManager'' []]
       [(''name'', PStr ''Spring''), (''credentials'', PStr ''s3cr3t'')] example_world)))
   = [Some (encode (PDict [(''args_count'', PInt 1), (''name'', PStr ''Spring''),
                          (''credentials'', PStr ''s3cr3t'')]))]"
  by (simp add: run_defs example_defs)

subsection \<open>Claim C4\<close>




subsection \<open>Claim C5\<close>




subsection \<open>Claim C6\<close>

text \<open>
  Claim C6 against the code: for a vendor exception whose sub-error has a message object as
  \<^verbatim>\<open>error_code\<close>, \<^verbatim>\<open>.get('name', 'UNKNOWN')\<close> raises \<^verbatim>\<open>AttributeError\<close>;
  \<^verbatim>\<open>log_error\<close> raises it to its caller and stores nothing.
\<close>

theorem log_error_vendor_failure_raises:
  "log_error example_env ''Traceback (most recent call last): ...'' ''API_CALL''
     ''GOOGLE_ADS_API'' ''handle_exception'' vendor_exc
     (PDict [(''customer_id'', PStr ''1234567890'')]) PNone None example_world
   = Inl AttributeError"
  by (simp add: log_error_def error_details_def error_code_name_def vendor_exc_def)

subsection \<open>Claim C7\<close>

text \<open>
  Claim C7, as the code has it. When the wrapped operation returns a result of one of the two
  shapes, the wrapper returns that result unchanged; the entry it stores has that resource id
  and the status \<^verbatim>\<open>SUCCESS\<close>. The entry is stored when \<^verbatim>\<open>log_operation\<close> can write the
  snapshot and the identity; otherwise the table is left as the operation left it.
\<close>

theorem resource_id_recorded:
  assumes "func args kwargs w = (Inr result, w1)" and "spec_resource_id result = Some rid"
  shows "fst (wrapper ot rt fn func env args kwargs w) = Inr result \<and>
         (if log_succeeds (log env) (PDict (build_log_params args kwargs)) PNone PNone PNone w1
          then \<exists>r. db_rows (snd (wrapper ot rt fn func env args kwargs w)) = db_rows w1 @ [r] \<and>
                   resource_id r = Some rid \<and> result_status r = Some ''SUCCESS''
          else db_rows (snd (wrapper ot rt fn func env args kwargs w)) = db_rows w1)"
proof -
  from spec_resource_id_extract [OF assms(2)] obtain cnt
    where x: "extract_resource_id result = Inr (PStr rid)" and c: "resource_count result = Inr cnt"
      and d: "dumpable (PDict [(''resource_count'', cnt)])" by blast
  let ?lp = "PDict (build_log_params args kwargs)"
  let ?w' = "log_operation (log env) ot rt fn ?lp (PStr rid) ''SUCCESS''
               (PDict [(''resource_count'', cnt)]) None None PNone None
               (Some (t_end env - t_start env)) w1"
  have wr: "wrapper ot rt fn func env args kwargs w = (Inr result, ?w')"
    using assms(1) x c by (simp add: wrapper_def)
  have ls: "log_succeeds (log env) ?lp (PStr rid) (PDict [(''resource_count'', cnt)]) PNone w1
            = log_succeeds (log env) ?lp PNone PNone PNone w1"
    by (rule log_succeeds_args) (simp_all add: bindable_def d)
  show ?thesis
  proof (cases "log_succeeds (log env) ?lp PNone PNone PNone w1")
    case True
    with ls log_operation_persists obtain r where r: "db_rows ?w' = db_rows w1 @ [r]" by blast
    from log_operation_row [OF r] have "resource_id r = Some rid \<and> result_status r = Some ''SUCCESS''"
      by simp
    with r wr True show ?thesis by auto
  next
    case False
    with ls log_operation_dropped have "db_rows ?w' = db_rows w1" by blast
    with wr False show ?thesis by simp
  qed
qed

text \<open>The theorem at a call that returns \<^verbatim>\<open>customers/1/campaigns/2\<close>.\<close>

theorem resource_id_recorded_witness:
  "returns_resource_name [PObj ''CampaignManager'' []]
       [(''name'', PStr ''Spring''), (''password'', PStr ''hunter2'')] example_world
     = (Inr (PStr ''customers/1/campaigns/2''), example_world) \<and>
   spec_resource_id (PStr ''customers/1/campaigns/2'') = Some ''customers/1/campaigns/2'' \<and>
   log_succeeds (log example_call_env)
     (PDict (build_log_params [PObj ''CampaignManager'' []]
        [(''name'', PStr ''Spring''), (''password'', PStr ''hunter2'')])) PNone PNone PNone
     example_world \<and>
   fst (wrapper ''CREATE'' ''CAMPAIGN'' ''create_campaign'' returns_resource_name
       example_call_env [PObj ''CampaignManager'' []]
       [(''name'', PStr ''Spring''), (''password'', PStr ''hunter2'')] example_world)
     = Inr (PStr ''customers/1/campaigns/2'') \<and>
   db_rows (snd (wrapper ''CREATE'' ''CAMPAIGN'' ''create_campaign'' returns_resource_name
       example_call_env [PObj ''CampaignManager'' []]
       [(''name'', PStr ''Spring''), (''password'', PStr ''hunter2'')] example_world))
     = db_rows example_world @ [example_success_row] \<and>
   resource_id example_success_row = Some ''customers/1/campaigns/2''"
proof -
  have h1: "returns_resource_name [PObj ''CampaignManager'' []]
       [(''name'', PStr ''Spring''), (''password'', PStr ''hunter2'')] example_world
     = (Inr (PStr ''customers/1/campaigns/2''), example_world)"
    by (simp add: returns_resource_name_def)
  have h2: "spec_resource_id (PStr ''customers/1/campaigns/2'') = Some ''customers/1/campaigns/2''"
    by (simp add: spec_resource_id_def)
  have h3: "log_succeeds (log example_call_env)
     (PDict (build_log_params [PObj ''CampaignManager'' []]
        [(''name'', PStr ''Spring''), (''password'', PStr ''hunter2'')])) PNone PNone PNone
     example_world"
    by (simp add: log_succeeds_def dumpable_def bindable_def binds_not_null_def
        build_log_params_def get_user_id_def get_customer_id_def example_defs)
  from resource_id_recorded [where func = returns_resource_name
      and args = "[PObj ''CampaignManager'' []]"
      and kwargs = "[(''name'', PStr ''Spring''), (''password'', PStr ''hunter2'')]"
      and w = example_world and ot = "''CREATE''" and rt = "''CAMPAIGN''"
      and fn = "''create_campaign''" and env = example_call_env, OF h1 h2] h1 h2 h3
  show ?thesis
    by (simp add: example_wrapper_returns example_world_rows example_success_row_def)
qed

text \<open>
  Claim C7 as stated fails: with a keyword argument that \<^verbatim>\<open>json.dumps\<close> cannot convert, the
  operation returns \<^verbatim>\<open>customers/1/campaigns/2\<close> and nothing is recorded.
\<close>

theorem resource_id_not_recorded_counterexample:
  "wrapper ''CREATE'' ''CAMPAIGN'' ''create_campaign'' returns_resource_name example_call_env
     [PObj ''CampaignManager'' []] [(''start_date'', PObj ''date'' [])] example_world
   = (Inr (PStr ''customers/1/campaigns/2''), example_world)"
  by (simp add: run_defs example_defs)

subsection \<open>Claim C8\<close>

text \<open>
  Claim C8, as the code has it. A row stored by the wrapper has the status \<^verbatim>\<open>SUCCESS\<close> or
  \<^verbatim>\<open>ERROR\<close>; \<^verbatim>\<open>error_message\<close>, \<^verbatim>\<open>error_type\<close> and \<^verbatim>\<open>stack_trace\<close> are
  present exactly when the status is \<^verbatim>\<open>ERROR\<close>, \<^verbatim>\<open>result_data\<close> exactly when it is
  \<^verbatim>\<open>SUCCESS\<close>, and \<^verbatim>\<open>error_code\<close> only when it is \<^verbatim>\<open>ERROR\<close>.
\<close>

theorem error_fields_match_status:
  assumes "db_rows (snd (wrapper ot rt fn func env args kwargs w))
           = db_rows (snd (func args kwargs w)) @ [r]"
  shows "(result_status r = Some ''SUCCESS'' \<or> result_status r = Some ''ERROR'') \<and>
         (error_message r \<noteq> None \<longleftrightarrow> result_status r = Some ''ERROR'') \<and>
         (error_type r \<noteq> None \<longleftrightarrow> result_status r = Some ''ERROR'') \<and>
         (stack_trace r \<noteq> None \<longleftrightarrow> result_status r = Some ''ERROR'') \<and>
         (error_code r \<noteq> None \<longrightarrow> result_status r = Some ''ERROR'') \<and>
         (result_data r \<noteq> None \<longleftrightarrow> result_status r = Some ''SUCCESS'')"
  using wrapper_row [OF assms] by auto

text \<open>The theorem at a call that returns a resource name.\<close>

theorem error_fields_match_status_witness:
  "db_rows (snd (wrapper ''CREATE'' ''CAMPAIGN'' ''create_campaign'' returns_resource_name
       example_call_env [PObj ''CampaignManager'' []]
       [(''name'', PStr ''Spring''), (''password'', PStr ''hunter2'')] example_world))
   = db_rows (snd (returns_resource_name [PObj ''CampaignManager'' []]
       [(''name'', PStr ''Spring''), (''password'', PStr ''hunter2'')] example_world))
     @ [example_success_row] \<and>
   result_status example_success_row = Some ''SUCCESS'' \<and>
   error_message example_success_row = None \<and> error_type example_success_row = None \<and>
   stack_trace example_success_row = None \<and> error_code example_success_row = None \<and>
   result_data example_success_row \<noteq> None"
  using error_fields_match_status [OF example_wrapper_returns_row] example_wrapper_returns_row
  by (simp add: example_success_row_def)

text \<open>
  Claim C8 as stated fails for \<^verbatim>\<open>error_code\<close>: a wrapped operation that raises
  \<^verbatim>\<open>ValueError("boom")\<close> gives an entry with status \<^verbatim>\<open>ERROR\<close> whose
  \<^verbatim>\<open>error_code\<close> is NULL.
\<close>

theorem error_code_absent_counterexample:
  "db_rows (snd (wrapper ''CREATE'' ''CAMPAIGN'' ''create_campaign'' raises_boom
       example_call_env [PObj ''CampaignManager'' []]
       [(''name'', PStr ''Spring''), (''password'', PStr ''hunter2'')] example_world))
   = [example_error_row] \<and>
   result_status example_error_row = Some ''ERROR'' \<and> error_code example_error_row = None"
  by (simp add: example_wrapper_raises) (simp add: example_error_row_def)

subsection \<open>Claim C9\<close>



subsection \<open>Claim C10\<close>

text \<open>
  Claim C10. When \<^verbatim>\<open>log_operation\<close> stores a row for falsy \<^verbatim>\<open>parameters\<close> (an empty
  mapping) or falsy \<^verbatim>\<open>result_data\<close> (an empty mapping, zero, ...), the column is NULL, and
  an entry that \<^verbatim>\<open>get_audit_logs\<close> returns for that row has \<^verbatim>\<open>None\<close> in that field.
\<close>

theorem falsy_fields_stored_null:
  assumes "db_rows (log_operation env ot rt fn p rid st rd em et ec tr ms w) = db_rows w @ [r]"
    and "get_audit_logs w' limit a b c d s t res" and "e \<in> set res" and "columns e = r"
  shows "(\<not> truthy p \<longrightarrow> parameters r = None \<and> parameters_value e = PNone) \<and>
         (\<not> truthy rd \<longrightarrow> result_data r = None \<and> result_data_value e = PNone)"
proof -
  from log_operation_row [OF assms(1)]
  have p: "dumps_if_truthy p = Inr (parameters r)" and rd: "dumps_if_truthy rd = Inr (result_data r)"
    by simp_all
  from get_audit_logs_entries [OF assms(2,3)] assms(4) have e: "e = to_log_entry r" by simp
  show ?thesis
    using p rd e by (auto simp: dumps_if_truthy_def to_log_entry_def parse_json_field_def)
qed

text \<open>The theorem at an insert with \<^verbatim>\<open>parameters = {}\<close> and \<^verbatim>\<open>result_data = 0\<close>.\<close>

theorem falsy_fields_stored_null_witness:
  "db_rows (log_operation example_env ''CREATE'' ''CAMPAIGN'' ''create_campaign'' (PDict []) PNone
     ''SUCCESS'' (PInt 0) None None PNone None (Some 7) example_world)
     = db_rows example_world @ [example_row] \<and>
   get_audit_logs (example_world\<lparr>db_rows := [example_row], db_seq := 1\<rparr>) 100 None None None None
     None None [to_log_entry example_row] \<and>
   \<not> truthy (PDict []) \<and> \<not> truthy (PInt 0) \<and>
   parameters example_row = None \<and> parameters_value (to_log_entry example_row) = PNone \<and>
   result_data example_row = None \<and> result_data_value (to_log_entry example_row) = PNone"
proof -
  have h1: "db_rows (log_operation example_env ''CREATE'' ''CAMPAIGN'' ''create_campaign'' (PDict [])
     PNone ''SUCCESS'' (PInt 0) None None PNone None (Some 7) example_world)
     = db_rows example_world @ [example_row]"
    by (simp add: example_log_empty) (simp add: example_world_def)
  have h3: "to_log_entry example_row \<in> set [to_log_entry example_row]" by simp
  have h4: "columns (to_log_entry example_row) = example_row" by (simp add: to_log_entry_def)
  from falsy_fields_stored_null [OF h1 example_query_empty h3 h4] h1 example_query_empty
  show ?thesis by simp
qed

end
